theory Spec2Isabelle
  imports Complex_Main
begin

section \<open>Time\<close>

text \<open>
  A naive UTC \<^verbatim>\<open>datetime\<close> is the number of microseconds since 0001-01-01 00:00:00, the
  first instant Python can represent; a \<^verbatim>\<open>timedelta\<close> is a number of microseconds.
  Python floats are modelled by exact rationals: rounding is outside the model.
\<close>

type_synonym datetime = int
type_synonym timedelta = int

definition date :: "datetime \<Rightarrow> int" where
  \<comment> \<open>\<^verbatim>\<open>dt.date()\<close>, as a day number: \<^verbatim>\<open>dt.date().toordinal() - 1\<close>.\<close>
  "date dt = dt div 86400000000"

definition weekday :: "datetime \<Rightarrow> nat" where
  \<comment> \<open>\<^verbatim>\<open>dt.weekday()\<close> is \<^verbatim>\<open>(toordinal() + 6) % 7\<close>; day number 0 is a Monday.\<close>
  "weekday dt = nat (date dt mod 7)"

definition total_seconds :: "timedelta \<Rightarrow> rat" where
  "total_seconds td = of_int td / 1000000"

section \<open>Errors and object identifiers\<close>

datatype error =
    InvalidId
  | HTTPException nat string
  | IndexError

text \<open>
  \<^verbatim>\<open>bson.ObjectId(s)\<close> on a \<^verbatim>\<open>str\<close>: a string of 24 characters that \<^verbatim>\<open>bytes.fromhex\<close>
  accepts gives the identifier made of the decoded bytes; every other string raises
  \<^verbatim>\<open>InvalidId\<close>. \<^verbatim>\<open>bytes.fromhex\<close> reads two hexadecimal digits per byte and skips ASCII
  whitespace between bytes.
\<close>

type_synonym objectid = "nat list"

definition isspace :: "char \<Rightarrow> bool" where
  "isspace c = (c \<in> set [CHR '' '', CHR 0x09, CHR 0x0A, CHR 0x0B, CHR 0x0C, CHR 0x0D])"

definition digit_value :: "char \<Rightarrow> nat option" where
  "digit_value c =
     (let n = (of_char c :: nat) in
      if 48 \<le> n \<and> n \<le> 57 then Some (n - 48)
      else if 97 \<le> n \<and> n \<le> 102 then Some (n - 87)
      else if 65 \<le> n \<and> n \<le> 70 then Some (n - 55)
      else None)"

fun fromhex :: "string \<Rightarrow> nat list option" where
  "fromhex [] = Some []"
| "fromhex [c] = (if isspace c then Some [] else None)"
| "fromhex (c # d # cs) =
     (if isspace c then fromhex (d # cs)
      else (case (digit_value c, digit_value d) of
              (Some hi, Some lo) \<Rightarrow> map_option ((#) (16 * hi + lo)) (fromhex cs)
            | _ \<Rightarrow> None))"

definition ObjectId :: "string \<Rightarrow> error + objectid" where
  "ObjectId oid =
     (if length oid = 24
      then (case fromhex oid of Some bs \<Rightarrow> Inr bs | None \<Rightarrow> Inl InvalidId)
      else Inl InvalidId)"

section \<open>Documents\<close>

text \<open>
  The records follow the models of \<^verbatim>\<open>server.py\<close>. A stored document is read as a
  dictionary: a field the handlers read by subscript is a plain field, a field they read
  with \<^verbatim>\<open>.get\<close> is optional, \<open>None\<close> standing for a missing key (or, for
  \<open>lastSessionDate\<close>, a null value). The identifier \<^verbatim>\<open>_id\<close> that the store gives to a
  focus session or a schedule is paired with the document; the one of a statistics
  document is never read by a query and is left out.
\<close>

record FocusSession =
  session_userId :: string
  startTime :: datetime
  endTime :: "datetime option"
  duration :: int
  completed :: bool
  quote :: string
  session_createdAt :: datetime

record FocusSessionComplete =
  sessionId :: string
  complete_userId :: string

record UserStats =
  userId :: string
  totalHours :: rat
  sessionsCount :: int
  currentStreak :: "int option"
  lastSessionDate :: "datetime option"
  weeklyData :: "rat list option"

record Schedule =
  schedule_userId :: string
  time :: string
  days :: "string list"
  enabled :: "bool option"
  name :: string
  schedule_createdAt :: datetime

definition UserStats_default :: "string \<Rightarrow> UserStats" where
  \<comment> \<open>\<^verbatim>\<open>UserStats(userId=u).dict()\<close>\<close>
  "UserStats_default u =
     \<lparr>userId = u, totalHours = 0, sessionsCount = 0, currentStreak = Some 0,
      lastSessionDate = None, weeklyData = Some (replicate 7 0)\<rparr>"

section \<open>The store\<close>

record db =
  focus_sessions :: "(objectid \<times> FocusSession) list"
  user_stats :: "UserStats list"
  schedules :: "(objectid \<times> Schedule) list"

fun find_one :: "('a \<Rightarrow> bool) \<Rightarrow> 'a list \<Rightarrow> 'a option" where
  "find_one P [] = None"
| "find_one P (x # xs) = (if P x then Some x else find_one P xs)"

fun update_one :: "('a \<Rightarrow> bool) \<Rightarrow> ('a \<Rightarrow> 'a) \<Rightarrow> 'a list \<Rightarrow> 'a list" where
  "update_one P f [] = []"
| "update_one P f (x # xs) = (if P x then f x # xs else x # update_one P f xs)"

definition insert_one :: "'a \<Rightarrow> 'a list \<Rightarrow> 'a list" where
  "insert_one x xs = xs @ [x]"

definition has_id :: "objectid \<Rightarrow> objectid \<times> 'a \<Rightarrow> bool" where
  \<comment> \<open>the query \<^verbatim>\<open>{"_id": i}\<close>\<close>
  "has_id i doc = (fst doc = i)"

definition has_userId :: "string \<Rightarrow> UserStats \<Rightarrow> bool" where
  \<comment> \<open>the query \<^verbatim>\<open>{"userId": u}\<close> on the statistics\<close>
  "has_userId u doc = (userId doc = u)"

section \<open>Completing a session\<close>

definition add_at :: "rat list \<Rightarrow> nat \<Rightarrow> rat \<Rightarrow> error + rat list" where
  \<comment> \<open>\<^verbatim>\<open>xs[i] += v\<close>: Python raises IndexError when \<open>i\<close> is out of range.\<close>
  "add_at xs i v = (if i < length xs then Inr (xs[i := xs ! i + v]) else Inl IndexError)"

text \<open>
  The store keeps every value exactly as the handlers write it.
  \<open>complete_session\<close> takes the request body, the value \<^verbatim>\<open>datetime.utcnow()\<close> returns
  during the call, and the store; it gives the response (or the exception that ends the
  call) and the store as the call leaves it. An exception raised after the session was
  updated leaves that update in place: nothing rolls it back.
\<close>

definition complete_session ::
  "FocusSessionComplete \<Rightarrow> datetime \<Rightarrow> db \<Rightarrow> (error + string \<times> rat) \<times> db" where
  "complete_session complete_data utcnow d0 =
     (case ObjectId (sessionId complete_data) of
        Inl e \<Rightarrow> (Inl e, d0)
      | Inr i \<Rightarrow>
         (case find_one (has_id i) (focus_sessions d0) of
            None \<Rightarrow> (Inl (HTTPException 404 ''Session not found''), d0)
          | Some (_, session) \<Rightarrow>
             (let end_time = utcnow;
                  d = d0\<lparr>focus_sessions :=
                         update_one (has_id i)
                           (\<lambda>(j, s). (j, s\<lparr>endTime := Some end_time, completed := True\<rparr>))
                           (focus_sessions d0)\<rparr>;
                  start_time = startTime session;
                  actual_duration = total_seconds (end_time - start_time) / 3600
              in case find_one (has_userId (complete_userId complete_data)) (user_stats d) of
                   None \<Rightarrow>
                     (let day_of_week = weekday end_time
                      in case add_at (replicate 7 0) day_of_week actual_duration of
                           Inl e \<Rightarrow> (Inl e, d)
                         | Inr weekly_data \<Rightarrow>
                             (Inr (''Session completed'', actual_duration),
                              d\<lparr>user_stats :=
                                  insert_one
                                    \<lparr>userId = complete_userId complete_data,
                                     totalHours = actual_duration,
                                     sessionsCount = 1,
                                     currentStreak = Some 1,
                                     lastSessionDate = Some end_time,
                                     weeklyData = Some weekly_data\<rparr>
                                    (user_stats d)\<rparr>))
                 | Some stats \<Rightarrow>
                     (let new_total_hours = totalHours stats + actual_duration;
                          new_sessions_count = sessionsCount stats + 1;
                          last_session_date = lastSessionDate stats;
                          current_streak = (case currentStreak stats of None \<Rightarrow> 0 | Some c \<Rightarrow> c);
                          current_streak =
                            (case last_session_date of
                               Some l \<Rightarrow>
                                 (let days_diff = date end_time - date l
                                  in if days_diff = 0
                                     then (case currentStreak stats of None \<Rightarrow> 1 | Some c \<Rightarrow> c)
                                     else if days_diff = 1 then current_streak + 1
                                     else 1)
                             | None \<Rightarrow> 1);
                          weekly_data =
                            (case weeklyData stats of None \<Rightarrow> replicate 7 0 | Some w \<Rightarrow> w);
                          day_of_week = weekday end_time
                      in case add_at weekly_data day_of_week actual_duration of
                           Inl e \<Rightarrow> (Inl e, d)
                         | Inr weekly_data \<Rightarrow>
                             (Inr (''Session completed'', actual_duration),
                              d\<lparr>user_stats :=
                                  update_one (has_userId (complete_userId complete_data))
                                    (\<lambda>doc. doc\<lparr>totalHours := new_total_hours,
                                               sessionsCount := new_sessions_count,
                                               currentStreak := Some current_streak,
                                               lastSessionDate := Some end_time,
                                               weeklyData := Some weekly_data\<rparr>)
                                    (user_stats d)\<rparr>)))))"



section \<open>Statistics\<close>

definition get_stats :: "string \<Rightarrow> db \<Rightarrow> UserStats \<times> db" where
  "get_stats u d =
     (case find_one (has_userId u) (user_stats d) of
        None \<Rightarrow> (UserStats_default u, d)
      | Some stats \<Rightarrow> (stats, d))"

definition weekly :: "UserStats \<Rightarrow> rat list" where
  \<comment> \<open>\<^verbatim>\<open>stats.get("weeklyData", [0.0] * 7)\<close>\<close>
  "weekly stats = (case weeklyData stats of None \<Rightarrow> replicate 7 0 | Some w \<Rightarrow> w)"

section \<open>Schedules\<close>

definition find_all :: "('a \<Rightarrow> bool) \<Rightarrow> 'a list \<Rightarrow> 'a list" where
  \<comment> \<open>the cursor of \<^verbatim>\<open>collection.find(query)\<close>: the matching documents in storage order\<close>
  "find_all P xs = filter P xs"

definition to_list :: "nat \<Rightarrow> 'a list \<Rightarrow> 'a list" where
  \<comment> \<open>\<^verbatim>\<open>cursor.to_list(length)\<close>: at most \<open>length\<close> documents\<close>
  "to_list n xs = take n xs"

definition hexdigit :: "nat \<Rightarrow> char" where
  "hexdigit n = ''0123456789abcdef'' ! n"

definition str :: "objectid \<Rightarrow> string" where
  \<comment> \<open>\<^verbatim>\<open>str(ObjectId)\<close>: the bytes in lower-case hexadecimal\<close>
  "str i = concat (map (\<lambda>b. [hexdigit (b div 16), hexdigit (b mod 16)]) i)"

definition get_schedules :: "string \<Rightarrow> db \<Rightarrow> (string \<times> Schedule) list \<times> db" where
  "get_schedules u d =
     (let schedules = to_list 100 (find_all (\<lambda>(i, s). schedule_userId s = u) (schedules d))
      in (map (\<lambda>(i, s). (str i, s)) schedules, d))"

definition toggle_schedule :: "string \<Rightarrow> db \<Rightarrow> (error + bool) \<times> db" where
  "toggle_schedule schedule_id d =
     (case ObjectId schedule_id of
        Inl e \<Rightarrow> (Inl e, d)
      | Inr i \<Rightarrow>
         (case find_one (has_id i) (schedules d) of
            None \<Rightarrow> (Inl (HTTPException 404 ''Schedule not found''), d)
          | Some (_, schedule) \<Rightarrow>
             (let new_status = (\<not> (case enabled schedule of None \<Rightarrow> True | Some b \<Rightarrow> b))
              in (Inr new_status,
                  d\<lparr>schedules :=
                      update_one (has_id i) (\<lambda>(j, s). (j, s\<lparr>enabled := Some new_status\<rparr>))
                        (schedules d)\<rparr>))))"

section \<open>Notions used to state the properties\<close>

text \<open>
  Names for parts of \<open>complete_session\<close>: the session update, the hours between the stored
  start and the completion, the streak it computes for an existing record, and the record
  a successful completion leaves from the one \<open>get_stats\<close> reported before.
\<close>

definition hours_between :: "datetime \<Rightarrow> datetime \<Rightarrow> rat" where
  "hours_between start_time end_time = total_seconds (end_time - start_time) / 3600"

definition mark_completed :: "objectid \<Rightarrow> datetime \<Rightarrow> db \<Rightarrow> db" where
  "mark_completed i now d =
     d\<lparr>focus_sessions :=
         update_one (has_id i) (\<lambda>(j, s). (j, s\<lparr>endTime := Some now, completed := True\<rparr>))
           (focus_sessions d)\<rparr>"

definition streak_after :: "UserStats \<Rightarrow> datetime \<Rightarrow> int" where
  "streak_after stats now =
     (case lastSessionDate stats of
        None \<Rightarrow> 1
      | Some l \<Rightarrow>
          if date now - date l = 0 then (case currentStreak stats of None \<Rightarrow> 1 | Some c \<Rightarrow> c)
          else if date now - date l = 1
          then (case currentStreak stats of None \<Rightarrow> 0 | Some c \<Rightarrow> c) + 1
          else 1)"

definition credit :: "datetime \<Rightarrow> rat \<Rightarrow> UserStats \<Rightarrow> UserStats" where
  "credit now h stats =
     stats\<lparr>totalHours := totalHours stats + h,
           sessionsCount := sessionsCount stats + 1,
           currentStreak := Some (streak_after stats now),
           lastSessionDate := Some now,
           weeklyData := Some ((weekly stats)[weekday now := weekly stats ! weekday now + h])\<rparr>"

text \<open>
  The duration a completion request would report against a store, if its identifier
  resolves there, and whether it resolves at all.
\<close>

definition actual_duration :: "db \<Rightarrow> FocusSessionComplete \<Rightarrow> datetime \<Rightarrow> rat option" where
  "actual_duration d cd now =
     (case ObjectId (sessionId cd) of
        Inl e \<Rightarrow> None
      | Inr i \<Rightarrow>
          map_option (\<lambda>(j, session). hours_between (startTime session) now)
            (find_one (has_id i) (focus_sessions d)))"

definition resolves :: "FocusSessionComplete \<Rightarrow> db \<Rightarrow> bool" where
  "resolves cd d =
     (case ObjectId (sessionId cd) of
        Inl e \<Rightarrow> False
      | Inr i \<Rightarrow> find_one (has_id i) (focus_sessions d) \<noteq> None)"

section \<open>Example data\<close>

definition monday :: datetime where
  \<comment> \<open>2024-01-01 00:00:00, a Monday\<close>
  "monday = 63839664000000000"

definition hour :: timedelta where
  "hour = 3600000000"

definition day :: timedelta where
  "day = 86400000000"

definition session_a :: "objectid \<times> FocusSession" where
  "session_a =
     ([101, 161, 178, 195, 212, 229, 246, 7, 24, 41, 58, 75],
      \<lparr>session_userId = ''alice'', startTime = monday + 9 * hour, endTime = None,
       duration = 120, completed = False, quote = ''Where focus goes, energy flows'',
       session_createdAt = monday + 9 * hour\<rparr>)"

definition alice_stats :: UserStats where
  "alice_stats =
     \<lparr>userId = ''alice'', totalHours = 5, sessionsCount = 4, currentStreak = Some 2,
      lastSessionDate = Some (monday - day + 20 * hour),
      weeklyData = Some [1, 0, 0, 0, 0, 1, 3]\<rparr>"

definition bob_stats :: UserStats where
  "bob_stats =
     \<lparr>userId = ''bob'', totalHours = 1, sessionsCount = 1, currentStreak = Some 1,
      lastSessionDate = None, weeklyData = Some [0, 0, 1, 0, 0, 0, 0]\<rparr>"

definition db_a :: db where
  "db_a =
     \<lparr>focus_sessions = [session_a], user_stats = [bob_stats, alice_stats], schedules = []\<rparr>"

definition db_a1 :: db where
  \<comment> \<open>\<open>db_a\<close> after \<open>session_a\<close> was completed for alice on Monday at 11:00\<close>
  "db_a1 =
     \<lparr>focus_sessions =
        [(fst session_a,
          (snd session_a)\<lparr>endTime := Some (monday + 11 * hour), completed := True\<rparr>)],
      user_stats =
        [bob_stats,
         alice_stats\<lparr>totalHours := 7, sessionsCount := 5, currentStreak := Some 3,
           lastSessionDate := Some (monday + 11 * hour),
           weeklyData := Some [3, 0, 0, 0, 0, 1, 3]\<rparr>],
      schedules = []\<rparr>"

definition complete_a :: "string \<Rightarrow> FocusSessionComplete" where
  \<comment> \<open>the request to complete \<open>session_a\<close> on behalf of user \<open>u\<close>\<close>
  "complete_a u = \<lparr>sessionId = ''65a1b2c3d4e5f60718293a4b'', complete_userId = u\<rparr>"





definition morning :: "objectid \<times> Schedule" where
  "morning =
     ([102, 11, 28, 45, 62, 79, 96, 113, 130, 147, 164, 181],
      \<lparr>schedule_userId = ''default_user'', time = ''07:30'', days = [''Mon'', ''Wed''],
       enabled = Some True, name = ''Morning focus'', schedule_createdAt = monday + 8 * hour\<rparr>)"

definition evening :: "objectid \<times> Schedule" where
  "evening =
     ([102, 11, 28, 45, 62, 79, 96, 113, 130, 147, 164, 182],
      \<lparr>schedule_userId = ''alice'', time = ''21:00'', days = [''Fri''],
       enabled = Some False, name = ''Evening review'', schedule_createdAt = monday + 9 * hour\<rparr>)"

definition db_t :: db where
  "db_t = \<lparr>focus_sessions = [], user_stats = [], schedules = [morning, evening]\<rparr>"

definition numbered_schedule :: "nat \<Rightarrow> objectid \<times> Schedule" where
  "numbered_schedule k =
     ([102, 11, 28, 45, 62, 79, 96, 113, 130, 147, 0, k],
      \<lparr>schedule_userId = ''default_user'', time = ''07:30'', days = [''Mon''],
       enabled = Some True, name = ''Morning focus'', schedule_createdAt = monday + int k\<rparr>)"

definition db_101 :: db where
  "db_101 = \<lparr>focus_sessions = [], user_stats = [], schedules = map numbered_schedule [0..<101]\<rparr>"

section \<open>Lemmas about the store and the handlers\<close>

lemma weekday_less_7: "weekday t < 7"
  by (simp add: weekday_def nat_less_iff)

lemma find_one_update_one_same:
  "(\<And>x. P x \<Longrightarrow> P (f x)) \<Longrightarrow> find_one P (update_one P f xs) = map_option f (find_one P xs)"
  by (induction xs) auto

lemma find_one_update_one_other:
  "(\<And>x. Q (f x) = Q x) \<Longrightarrow> (\<And>x. P x \<Longrightarrow> \<not> Q x) \<Longrightarrow>
   find_one Q (update_one P f xs) = find_one Q xs"
  by (induction xs) auto

lemma find_one_insert_one:
  "find_one P (insert_one x xs) =
     (case find_one P xs of Some y \<Rightarrow> Some y | None \<Rightarrow> if P x then Some x else None)"
  by (induction xs) (auto simp: insert_one_def)

lemma find_one_Some_holds: "find_one P xs = Some x \<Longrightarrow> P x"
  by (induction xs) (auto split: if_splits)

lemma update_one_absent: "find_one P xs = None \<Longrightarrow> update_one P f xs = xs"
  by (induction xs) (auto split: if_splits)

lemma complete_session_invalid:
  "ObjectId (sessionId cd) = Inl e \<Longrightarrow> complete_session cd now d = (Inl e, d)"
  by (simp add: complete_session_def)

lemma complete_session_not_found:
  "ObjectId (sessionId cd) = Inr i \<Longrightarrow> find_one (has_id i) (focus_sessions d) = None \<Longrightarrow>
   complete_session cd now d = (Inl (HTTPException 404 ''Session not found''), d)"
  by (simp add: complete_session_def)

lemma complete_session_insert:
  "ObjectId (sessionId cd) = Inr i \<Longrightarrow> find_one (has_id i) (focus_sessions d) = Some (j, session) \<Longrightarrow>
   find_one (has_userId (complete_userId cd)) (user_stats d) = None \<Longrightarrow>
   complete_session cd now d =
     (Inr (''Session completed'', hours_between (startTime session) now),
      (mark_completed i now d)\<lparr>user_stats :=
         insert_one
           \<lparr>userId = complete_userId cd, totalHours = hours_between (startTime session) now, sessionsCount = 1,
            currentStreak = Some 1, lastSessionDate = Some now,
            weeklyData = Some ((replicate 7 0)[weekday now := hours_between (startTime session) now])\<rparr>
           (user_stats d)\<rparr>)"
  by (simp add: complete_session_def mark_completed_def add_at_def weekday_less_7 hours_between_def
      Let_def)

lemma complete_session_update:
  "ObjectId (sessionId cd) = Inr i \<Longrightarrow> find_one (has_id i) (focus_sessions d) = Some (j, session) \<Longrightarrow>
   find_one (has_userId (complete_userId cd)) (user_stats d) = Some stats \<Longrightarrow>
   weekday now < length (weekly stats) \<Longrightarrow>
   complete_session cd now d =
     (Inr (''Session completed'', hours_between (startTime session) now),
      (mark_completed i now d)\<lparr>user_stats :=
         update_one (has_userId (complete_userId cd))
           (\<lambda>doc. doc\<lparr>totalHours := totalHours stats + hours_between (startTime session) now,
                      sessionsCount := sessionsCount stats + 1,
                      currentStreak := Some (streak_after stats now),
                      lastSessionDate := Some now,
                      weeklyData := Some ((weekly stats)[weekday now := weekly stats ! weekday now + hours_between (startTime session) now])\<rparr>)
           (user_stats d)\<rparr>)"
  by (simp add: complete_session_def mark_completed_def add_at_def weekly_def streak_after_def
      hours_between_def Let_def split: option.splits)

lemma complete_session_index_error:
  "ObjectId (sessionId cd) = Inr i \<Longrightarrow> find_one (has_id i) (focus_sessions d) = Some (j, session) \<Longrightarrow>
   find_one (has_userId (complete_userId cd)) (user_stats d) = Some stats \<Longrightarrow>
   \<not> weekday now < length (weekly stats) \<Longrightarrow>
   complete_session cd now d = (Inl IndexError, mark_completed i now d)"
  by (simp add: complete_session_def mark_completed_def add_at_def weekly_def
      split: option.splits)

lemma complete_session_cases [case_names invalid not_found insert update index_error]:
  obtains
    (invalid) e where "ObjectId (sessionId cd) = Inl e" "complete_session cd now d = (Inl e, d)"
  | (not_found) i where "ObjectId (sessionId cd) = Inr i"
      "find_one (has_id i) (focus_sessions d) = None"
      "complete_session cd now d = (Inl (HTTPException 404 ''Session not found''), d)"
  | (insert) i j session where "ObjectId (sessionId cd) = Inr i"
      "find_one (has_id i) (focus_sessions d) = Some (j, session)"
      "find_one (has_userId (complete_userId cd)) (user_stats d) = None"
      "complete_session cd now d =
        (Inr (''Session completed'', hours_between (startTime session) now),
         (mark_completed i now d)\<lparr>user_stats :=
            insert_one
              \<lparr>userId = complete_userId cd, totalHours = hours_between (startTime session) now,
               sessionsCount = 1, currentStreak = Some 1, lastSessionDate = Some now,
               weeklyData = Some ((replicate 7 0)[weekday now := hours_between (startTime session) now])\<rparr>
              (user_stats d)\<rparr>)"
  | (update) i j session stats where "ObjectId (sessionId cd) = Inr i"
      "find_one (has_id i) (focus_sessions d) = Some (j, session)"
      "find_one (has_userId (complete_userId cd)) (user_stats d) = Some stats"
      "weekday now < length (weekly stats)"
      "complete_session cd now d =
        (Inr (''Session completed'', hours_between (startTime session) now),
         (mark_completed i now d)\<lparr>user_stats :=
            update_one (has_userId (complete_userId cd))
              (\<lambda>doc. doc\<lparr>totalHours := totalHours stats + hours_between (startTime session) now,
                         sessionsCount := sessionsCount stats + 1,
                         currentStreak := Some (streak_after stats now),
                         lastSessionDate := Some now,
                         weeklyData := Some ((weekly stats)[weekday now :=
                           weekly stats ! weekday now + hours_between (startTime session) now])\<rparr>)
              (user_stats d)\<rparr>)"
  | (index_error) i j session stats where "ObjectId (sessionId cd) = Inr i"
      "find_one (has_id i) (focus_sessions d) = Some (j, session)"
      "find_one (has_userId (complete_userId cd)) (user_stats d) = Some stats"
      "\<not> weekday now < length (weekly stats)"
      "complete_session cd now d = (Inl IndexError, mark_completed i now d)"
proof (cases "ObjectId (sessionId cd)")
  case (Inl e)
  then show ?thesis using invalid complete_session_invalid by blast
next
  case (Inr i)
  show ?thesis
  proof (cases "find_one (has_id i) (focus_sessions d)")
    case None
    then show ?thesis using Inr not_found complete_session_not_found by blast
  next
    case (Some p)
    obtain j session where p: "p = (j, session)" by (cases p)
    show ?thesis
    proof (cases "find_one (has_userId (complete_userId cd)) (user_stats d)")
      case None
      then show ?thesis using Inr Some p insert complete_session_insert by blast
    next
      case stats: (Some stats)
      show ?thesis
      proof (cases "weekday now < length (weekly stats)")
        case True
        then show ?thesis using Inr Some p stats update complete_session_update by blast
      next
        case False
        then show ?thesis using Inr Some p stats index_error complete_session_index_error by blast
      qed
    qed
  qed
qed

lemma user_stats_mark_completed [simp]: "user_stats (mark_completed i now d) = user_stats d"
  by (simp add: mark_completed_def)

lemma schedules_mark_completed [simp]: "schedules (mark_completed i now d) = schedules d"
  by (simp add: mark_completed_def)

lemma find_stats_update:
  assumes f: "\<And>x. userId (f x) = userId x"
  shows "find_one (has_userId u) (update_one (has_userId v) f xs) =
         (if u = v then map_option f (find_one (has_userId u) xs)
          else find_one (has_userId u) xs)"
proof -
  have keep: "\<And>x w. has_userId w (f x) = has_userId w x"
    by (simp add: has_userId_def f)
  have apart: "\<And>x. has_userId v x \<Longrightarrow> u \<noteq> v \<Longrightarrow> \<not> has_userId u x"
    by (simp add: has_userId_def)
  show ?thesis
    by (induction xs) (auto simp: keep dest: apart)
qed

lemma find_stats_insert:
  "find_one (has_userId v) xs = None \<Longrightarrow>
   find_one (has_userId u) (insert_one x xs) =
     (if u = v then (if userId x = v then Some x else None)
      else (case find_one (has_userId u) xs of Some y \<Rightarrow> Some y
            | None \<Rightarrow> if userId x = u then Some x else None))"
  by (simp add: find_one_insert_one has_userId_def)



lemma credit_default:
  "credit now h (UserStats_default u) =
     \<lparr>userId = u, totalHours = h, sessionsCount = 1, currentStreak = Some 1,
      lastSessionDate = Some now, weeklyData = Some ((replicate 7 0)[weekday now := h])\<rparr>"
  by (simp add: credit_def UserStats_default_def streak_after_def weekly_def weekday_less_7)

lemma userId_default [simp]: "userId (UserStats_default u) = u"
  by (simp add: UserStats_default_def)

lemma userId_credit [simp]: "userId (credit now h stats) = userId stats"
  by (simp add: credit_def)

lemma fst_get_stats:
  "fst (get_stats u d) =
     (case find_one (has_userId u) (user_stats d) of
        None \<Rightarrow> UserStats_default u | Some stats \<Rightarrow> stats)"
  by (simp add: get_stats_def split: option.splits)

lemma get_stats_mark_completed:
  "fst (get_stats u (mark_completed i now d)) = fst (get_stats u d)"
  by (simp add: get_stats_def split: option.splits)

lemma get_stats_found:
  "find_one (has_userId u) (user_stats d) = Some stats \<Longrightarrow> fst (get_stats u d) = stats"
  by (simp add: get_stats_def)

lemma get_stats_absent:
  "find_one (has_userId u) (user_stats d) = None \<Longrightarrow> fst (get_stats u d) = UserStats_default u"
  by (simp add: get_stats_def)

lemma complete_session_view:
  assumes "complete_session cd now d = (r, d')"
  shows "fst (get_stats u d') =
           (case r of
              Inl e \<Rightarrow> fst (get_stats u d)
            | Inr (m, h) \<Rightarrow>
                if complete_userId cd = u then credit now h (fst (get_stats u d))
                else fst (get_stats u d))"
proof (cases rule: complete_session_cases [of cd now d])
  case (invalid e)
  with assms show ?thesis by auto
next
  case (not_found i)
  with assms show ?thesis by auto
next
  case (insert i j session)
  with assms have r: "r = Inr (''Session completed'', hours_between (startTime session) now)"
    and d': "user_stats d' = insert_one (credit now (hours_between (startTime session) now)
               (UserStats_default (complete_userId cd))) (user_stats d)"
    by (auto simp: credit_default)
  show ?thesis
  proof (cases "complete_userId cd = u")
    case True
    with insert(3) d' r show ?thesis
      by (simp add: fst_get_stats find_one_insert_one has_userId_def)
  next
    case False
    with d' r show ?thesis
      by (simp add: fst_get_stats find_one_insert_one has_userId_def
          split: option.splits)
  qed
next
  case (update i j session stats)
  with assms have r: "r = Inr (''Session completed'', hours_between (startTime session) now)"
    and d': "user_stats d' = update_one (has_userId (complete_userId cd))
               (\<lambda>doc. doc\<lparr>totalHours := totalHours stats + hours_between (startTime session) now,
                         sessionsCount := sessionsCount stats + 1,
                         currentStreak := Some (streak_after stats now),
                         lastSessionDate := Some now,
                         weeklyData := Some ((weekly stats)[weekday now :=
                           weekly stats ! weekday now + hours_between (startTime session) now])\<rparr>)
               (user_stats d)"
    by auto
  show ?thesis
  proof (cases "complete_userId cd = u")
    case True
    with update(3) d' r show ?thesis
      by (simp add: fst_get_stats find_stats_update credit_def)
  next
    case False
    with d' r show ?thesis
      by (simp add: fst_get_stats find_stats_update)
  qed
next
  case (index_error i j session stats)
  with assms show ?thesis by (auto simp: get_stats_mark_completed)
qed

lemma ObjectId_a: "ObjectId ''65a1b2c3d4e5f60718293a4b'' = Inr (fst session_a)"
  by (simp add: ObjectId_def digit_value_def isspace_def session_a_def)

lemma find_session_a: "find_one (has_id (fst session_a)) (focus_sessions db_a) = Some session_a"
  by (simp add: db_a_def has_id_def)

lemma find_alice: "find_one (has_userId ''alice'') (user_stats db_a) = Some alice_stats"
  by (simp add: db_a_def has_userId_def alice_stats_def bob_stats_def)


lemma find_default_user: "find_one (has_userId ''default_user'') (user_stats db_a) = None"
  by (simp add: db_a_def has_userId_def alice_stats_def bob_stats_def)

lemma hours_a: "hours_between (startTime (snd session_a)) (monday + 11 * hour) = 2"
  by (simp add: hours_between_def total_seconds_def session_a_def hour_def)

lemma weekday_a: "weekday (monday + 11 * hour) = 0"
  by (simp add: weekday_def date_def monday_def hour_def)

lemma complete_alice:
  "complete_session (complete_a ''alice'') (monday + 11 * hour) db_a =
     (Inr (''Session completed'', 2), db_a1)"
proof -
  have "complete_session (complete_a ''alice'') (monday + 11 * hour) db_a =
    (Inr (''Session completed'', hours_between (startTime (snd session_a)) (monday + 11 * hour)),
         (mark_completed (fst session_a) (monday + 11 * hour) db_a)\<lparr>user_stats :=
            update_one (has_userId (complete_userId (complete_a ''alice'')))
              (\<lambda>doc. doc\<lparr>totalHours := totalHours alice_stats + hours_between (startTime (snd session_a)) (monday + 11 * hour),
                         sessionsCount := sessionsCount alice_stats + 1,
                         currentStreak := Some (streak_after alice_stats (monday + 11 * hour)),
                         lastSessionDate := Some (monday + 11 * hour),
                         weeklyData := Some ((weekly alice_stats)[weekday (monday + 11 * hour) :=
                           weekly alice_stats ! weekday (monday + 11 * hour) + hours_between (startTime (snd session_a)) (monday + 11 * hour)])\<rparr>)
              (user_stats db_a)\<rparr>)"
    by (rule complete_session_update [where i = "fst session_a" and j = "fst session_a"])
       (simp_all add: complete_a_def ObjectId_a find_session_a find_alice weekday_a
          weekly_def alice_stats_def)
  also have "\<dots> = (Inr (''Session completed'', 2), db_a1)"
    by (simp add: hours_a weekday_a)
       (simp add: streak_after_def weekly_def alice_stats_def bob_stats_def db_a_def db_a1_def
          mark_completed_def has_id_def has_userId_def complete_a_def date_def monday_def
          hour_def day_def session_a_def)
  finally show ?thesis .
qed


lemma find_session_update:
  assumes f: "\<And>j s. fst (f (j, s)) = j"
  shows "find_one (has_id k) (update_one (has_id i) f xs) =
         (if k = i then map_option f (find_one (has_id k) xs) else find_one (has_id k) xs)"
proof -
  have keep: "\<And>x w. has_id w (f x) = has_id w x"
    using f by (auto simp: has_id_def)
  have apart: "\<And>x. has_id i x \<Longrightarrow> k \<noteq> i \<Longrightarrow> \<not> has_id k x"
    by (simp add: has_id_def)
  show ?thesis
    by (induction xs) (auto simp: keep dest: apart)
qed











lemma weekly_credit:
  "weekly (credit now h stats) = (weekly stats)[weekday now := weekly stats ! weekday now + h]"
  by (simp add: credit_def weekly_def)







lemma ObjectId_Inl: "ObjectId s = Inl e \<Longrightarrow> e = InvalidId"
  by (auto simp: ObjectId_def split: if_splits option.splits)

lemma ObjectId_missing:
  "ObjectId ''65a1b2c3d4e5f60718293a4c'' = Inr [101, 161, 178, 195, 212, 229, 246, 7, 24, 41, 58, 76]"
  by (simp add: ObjectId_def digit_value_def isspace_def)

lemma complete_session_found:
  assumes "ObjectId (sessionId cd) = Inr i"
    and "find_one (has_id i) (focus_sessions d) = Some (j, session)"
    and "length (weekly (fst (get_stats (complete_userId cd) d))) = 7"
  shows "fst (complete_session cd now d) =
           Inr (''Session completed'', hours_between (startTime session) now)"
    and "focus_sessions (snd (complete_session cd now d)) = focus_sessions (mark_completed i now d)"
proof -
  show "fst (complete_session cd now d) =
           Inr (''Session completed'', hours_between (startTime session) now)"
  proof (cases "find_one (has_userId (complete_userId cd)) (user_stats d)")
    case None
    from complete_session_insert [OF assms(1,2) None, of now] show ?thesis by simp
  next
    case (Some stats)
    with assms(3) have "weekday now < length (weekly stats)"
      using weekday_less_7 [of now] by (simp add: get_stats_found)
    from complete_session_update [OF assms(1,2) Some this] show ?thesis by simp
  qed
  show "focus_sessions (snd (complete_session cd now d)) = focus_sessions (mark_completed i now d)"
  proof (cases "find_one (has_userId (complete_userId cd)) (user_stats d)")
    case None
    from complete_session_insert [OF assms(1,2) None, of now] show ?thesis by simp
  next
    case (Some stats)
    with assms(3) have "weekday now < length (weekly stats)"
      using weekday_less_7 [of now] by (simp add: get_stats_found)
    from complete_session_update [OF assms(1,2) Some this] show ?thesis by simp
  qed
qed

lemma find_session_a1:
  "find_one (has_id (fst session_a)) (focus_sessions db_a1) =
     Some (fst session_a,
           (snd session_a)\<lparr>endTime := Some (monday + 11 * hour), completed := True\<rparr>)"
  by (simp add: db_a1_def has_id_def)

lemma alice_stats_a1:
  "fst (get_stats ''alice'' db_a1) =
     alice_stats\<lparr>totalHours := 7, sessionsCount := 5, currentStreak := Some 3,
       lastSessionDate := Some (monday + 11 * hour),
       weeklyData := Some [3, 0, 0, 0, 0, 1, 3]\<rparr>"
  by (simp add: get_stats_def db_a1_def has_userId_def bob_stats_def alice_stats_def)

lemma hours_a1: "hours_between (startTime (snd session_a)) (monday + 12 * hour) = 3"
  by (simp add: hours_between_def total_seconds_def session_a_def hour_def)

lemma weekday_a1: "weekday (monday + 12 * hour) = 0"
  by (simp add: weekday_def date_def monday_def hour_def)

lemma update_one_twice:
  "(\<And>x. P x \<Longrightarrow> P (f x)) \<Longrightarrow> update_one P g (update_one P f xs) = update_one P (g \<circ> f) xs"
  by (induction xs) auto

lemma update_one_fixed:
  "find_one P xs = Some x \<Longrightarrow> f x = x \<Longrightarrow> update_one P f xs = xs"
  by (induction xs) (auto split: if_splits)

lemma has_id_update [simp]: "has_id i (case x of (j, s) \<Rightarrow> (j, f j s)) = has_id i x"
  by (cases x) (simp add: has_id_def)

lemma toggle_schedule_invalid:
  "ObjectId schedule_id = Inl e \<Longrightarrow> toggle_schedule schedule_id d = (Inl e, d)"
  by (simp add: toggle_schedule_def)

lemma toggle_schedule_not_found:
  "ObjectId schedule_id = Inr i \<Longrightarrow> find_one (has_id i) (schedules d) = None \<Longrightarrow>
   toggle_schedule schedule_id d = (Inl (HTTPException 404 ''Schedule not found''), d)"
  by (simp add: toggle_schedule_def)

lemma toggle_schedule_found:
  "ObjectId schedule_id = Inr i \<Longrightarrow> find_one (has_id i) (schedules d) = Some (j, schedule) \<Longrightarrow>
   enabled schedule = Some b \<Longrightarrow>
   toggle_schedule schedule_id d =
     (Inr (\<not> b),
      d\<lparr>schedules :=
          update_one (has_id i) (\<lambda>(j, s). (j, s\<lparr>enabled := Some (\<not> b)\<rparr>)) (schedules d)\<rparr>)"
  by (simp add: toggle_schedule_def Let_def)

lemma ObjectId_morning: "ObjectId ''660b1c2d3e4f60718293a4b5'' = Inr (fst morning)"
  by (simp add: ObjectId_def digit_value_def isspace_def morning_def)

lemma ObjectId_unknown:
  "ObjectId ''660b1c2d3e4f60718293a4b7'' =
     Inr [102, 11, 28, 45, 62, 79, 96, 113, 130, 147, 164, 183]"
  by (simp add: ObjectId_def digit_value_def isspace_def)

lemma str_morning: "str (fst morning) = ''660b1c2d3e4f60718293a4b5''"
  by (simp add: str_def hexdigit_def morning_def)

lemma str_evening: "str (fst evening) = ''660b1c2d3e4f60718293a4b6''"
  by (simp add: str_def hexdigit_def evening_def)

lemma get_schedules_take:
  "get_schedules u d =
     (map (\<lambda>(i, s). (str i, s)) (take 100 (filter (\<lambda>(i, s). schedule_userId s = u) (schedules d))), d)"
  by (simp add: get_schedules_def to_list_def find_all_def)

lemma filter_numbered:
  "filter (\<lambda>(i, s). schedule_userId s = ''default_user'') (map numbered_schedule ks) =
     map numbered_schedule ks"
  by (induction ks) (simp_all add: numbered_schedule_def)

section \<open>Properties\<close>

text \<open>
  C7: for a user with no stored statistics, \<open>get_stats\<close> answers the default record
  (no hours, no sessions, no streak, no last session date, seven zeros) and the store
  it leaves is the store it was given.
\<close>

theorem get_stats_default:
  "find_one (has_userId u) (user_stats d) = None \<Longrightarrow>
   get_stats u d =
     (\<lparr>userId = u, totalHours = 0, sessionsCount = 0, currentStreak = Some 0,
       lastSessionDate = None, weeklyData = Some [0, 0, 0, 0, 0, 0, 0]\<rparr>, d)"
  by (simp add: get_stats_def UserStats_default_def numeral_eq_Suc)

theorem get_stats_default_witness:
  "find_one (has_userId ''default_user'') (user_stats db_a) = None \<and>
   get_stats ''default_user'' db_a =
     (\<lparr>userId = ''default_user'', totalHours = 0, sessionsCount = 0, currentStreak = Some 0,
       lastSessionDate = None, weeklyData = Some [0, 0, 0, 0, 0, 0, 0]\<rparr>, db_a)"
proof -
  have absent: "find_one (has_userId ''default_user'') (user_stats db_a) = None"
    by (simp add: db_a_def alice_stats_def bob_stats_def has_userId_def)
  from absent get_stats_default [OF absent] show ?thesis by simp
qed



text \<open>
  C2: a completion of an existing session for a user with no stored record succeeds and
  appends one record to the statistics: the hours between the session's start and the
  completion as total, one session, a streak of 1, the completion time as last session
  date, and seven zeros with the hours at the completion's weekday.
\<close>

theorem complete_session_first:
  assumes "ObjectId (sessionId cd) = Inr i"
    and "find_one (has_id i) (focus_sessions d) = Some (j, session)"
    and "find_one (has_userId (complete_userId cd)) (user_stats d) = None"
  shows "\<exists>d'. complete_session cd now d =
             (Inr (''Session completed'', hours_between (startTime session) now), d') \<and>
           user_stats d' =
             user_stats d @
             [\<lparr>userId = complete_userId cd,
               totalHours = hours_between (startTime session) now,
               sessionsCount = 1,
               currentStreak = Some 1,
               lastSessionDate = Some now,
               weeklyData =
                 Some ((replicate 7 0)[weekday now := hours_between (startTime session) now])\<rparr>] \<and>
           weekday now < 7"
  using complete_session_insert [OF assms, of now]
  by (simp add: insert_one_def weekday_less_7)

theorem complete_session_first_witness:
  "ObjectId (sessionId (complete_a ''default_user'')) = Inr (fst session_a) \<and>
   find_one (has_id (fst session_a)) (focus_sessions db_a) = Some (fst session_a, snd session_a) \<and>
   find_one (has_userId (complete_userId (complete_a ''default_user''))) (user_stats db_a) = None \<and>
   (\<exists>d'. complete_session (complete_a ''default_user'') (monday + 11 * hour) db_a =
            (Inr (''Session completed'', 2), d') \<and>
         user_stats d' =
           [bob_stats, alice_stats,
            \<lparr>userId = ''default_user'', totalHours = 2, sessionsCount = 1,
             currentStreak = Some 1, lastSessionDate = Some (monday + 11 * hour),
             weeklyData = Some [2, 0, 0, 0, 0, 0, 0]\<rparr>])"
proof -
  have oid: "ObjectId (sessionId (complete_a ''default_user'')) = Inr (fst session_a)"
    by (simp add: complete_a_def ObjectId_a)
  have session: "find_one (has_id (fst session_a)) (focus_sessions db_a) =
      Some (fst session_a, snd session_a)"
    by (simp add: find_session_a)
  have absent: "find_one (has_userId (complete_userId (complete_a ''default_user'')))
      (user_stats db_a) = None"
    by (simp add: complete_a_def find_default_user)
  have stored: "user_stats db_a = [bob_stats, alice_stats]"
    by (simp add: db_a_def)
  from complete_session_first [OF oid session absent, of "monday + 11 * hour"] oid session absent
  show ?thesis
    by (simp add: hours_a weekday_a stored complete_a_def numeral_eq_Suc)
qed







text \<open>
  The identifier \<^verbatim>\<open>abc\<close> resolves to no session of \<open>db_a\<close>; the call fails with
  \<^verbatim>\<open>InvalidId\<close>, which is not the 404 of a session that was not found.
\<close>

theorem complete_session_malformed_counterexample:
  "\<not> resolves \<lparr>sessionId = ''abc'', complete_userId = ''default_user''\<rparr> db_a \<and>
   complete_session \<lparr>sessionId = ''abc'', complete_userId = ''default_user''\<rparr>
     (monday + 11 * hour) db_a = (Inl InvalidId, db_a) \<and>
   InvalidId \<noteq> HTTPException 404 ''Session not found''"
  by (simp add: resolves_def complete_session_def ObjectId_def)

text \<open>
  C5, as the code has it: when the session identifier of the request resolves to no stored
  focus session, \<open>complete_session\<close> fails and leaves the whole store as it was, sessions
  and statistics alike. The failure is the 404 \<^verbatim>\<open>Session not found\<close> when the identifier
  is a well-formed object identifier, and the uncaught \<^verbatim>\<open>InvalidId\<close> of \<^verbatim>\<open>ObjectId\<close> when
  it is not.
\<close>

theorem complete_session_unresolved:
  assumes "\<not> resolves cd d"
  shows "complete_session cd now d =
           (Inl (if isl (ObjectId (sessionId cd)) then InvalidId
                 else HTTPException 404 ''Session not found''), d)"
proof (cases "ObjectId (sessionId cd)")
  case (Inl e)
  then show ?thesis
    using ObjectId_Inl [OF Inl] by (simp add: complete_session_invalid)
next
  case (Inr i)
  with assms have "find_one (has_id i) (focus_sessions d) = None"
    by (cases "find_one (has_id i) (focus_sessions d)") (auto simp: resolves_def)
  with Inr show ?thesis
    by (simp add: complete_session_not_found)
qed

theorem complete_session_unresolved_witness:
  "\<not> resolves \<lparr>sessionId = ''65a1b2c3d4e5f60718293a4c'', complete_userId = ''alice''\<rparr> db_a \<and>
   complete_session \<lparr>sessionId = ''65a1b2c3d4e5f60718293a4c'', complete_userId = ''alice''\<rparr>
     (monday + 11 * hour) db_a = (Inl (HTTPException 404 ''Session not found''), db_a) \<and>
   \<not> resolves \<lparr>sessionId = ''65a1b2c3d4e5f60718293a4'', complete_userId = ''alice''\<rparr> db_a \<and>
   complete_session \<lparr>sessionId = ''65a1b2c3d4e5f60718293a4'', complete_userId = ''alice''\<rparr>
     (monday + 11 * hour) db_a = (Inl InvalidId, db_a)"
proof -
  have missing: "\<not> resolves \<lparr>sessionId = ''65a1b2c3d4e5f60718293a4c'', complete_userId = ''alice''\<rparr> db_a"
    by (simp add: resolves_def ObjectId_missing db_a_def session_a_def has_id_def)
  have short: "\<not> resolves \<lparr>sessionId = ''65a1b2c3d4e5f60718293a4'', complete_userId = ''alice''\<rparr> db_a"
    by (simp add: resolves_def ObjectId_def)
  have short_id: "ObjectId ''65a1b2c3d4e5f60718293a4'' = Inl InvalidId"
    by (simp add: ObjectId_def)
  from complete_session_unresolved [OF missing, of "monday + 11 * hour"]
    complete_session_unresolved [OF short, of "monday + 11 * hour"] missing short
  show ?thesis
    by (simp add: ObjectId_missing short_id)
qed

text \<open>
  C6: completing a session that is already completed succeeds again. The response is the
  hours between the stored start and the new completion time, the session gets the new
  completion time as end time and stays completed, and the statistics of the requesting
  user are credited once more: the total grows by that duration, the session count by
  one, and the entry of the completion's weekday by that duration. The statistics are
  the ones \<open>get_stats\<close> reports, with seven weekly entries as every record written by
  \<open>complete_session\<close> has.
\<close>

theorem complete_session_again:
  assumes "ObjectId (sessionId cd) = Inr i"
    and "find_one (has_id i) (focus_sessions d) = Some (j, session)"
    and "completed session"
    and "endTime session = Some e"
    and "length (weekly (fst (get_stats (complete_userId cd) d))) = 7"
  shows "\<exists>d'.
           complete_session cd now d =
             (Inr (''Session completed'', hours_between (startTime session) now), d') \<and>
           find_one (has_id i) (focus_sessions d') =
             Some (j, session\<lparr>endTime := Some now, completed := True\<rparr>) \<and>
           totalHours (fst (get_stats (complete_userId cd) d')) =
             totalHours (fst (get_stats (complete_userId cd) d)) +
             hours_between (startTime session) now \<and>
           sessionsCount (fst (get_stats (complete_userId cd) d')) =
             sessionsCount (fst (get_stats (complete_userId cd) d)) + 1 \<and>
           weekly (fst (get_stats (complete_userId cd) d')) =
             (weekly (fst (get_stats (complete_userId cd) d)))
               [weekday now :=
                  weekly (fst (get_stats (complete_userId cd) d)) ! weekday now +
                  hours_between (startTime session) now]"
proof -
  let ?h = "hours_between (startTime session) now"
  let ?d' = "snd (complete_session cd now d)"
  have run: "complete_session cd now d = (Inr (''Session completed'', ?h), ?d')"
    using complete_session_found(1) [OF assms(1,2,5), of now] by (simp add: prod_eq_iff)
  have session: "find_one (has_id i) (focus_sessions ?d') =
      Some (j, session\<lparr>endTime := Some now, completed := True\<rparr>)"
    using assms(2)
    by (simp add: complete_session_found(2) [OF assms(1,2,5)] mark_completed_def
        find_session_update)
  have view: "fst (get_stats (complete_userId cd) ?d') =
      credit now ?h (fst (get_stats (complete_userId cd) d))"
    using complete_session_view [OF run, of "complete_userId cd"] by simp
  have total: "totalHours (fst (get_stats (complete_userId cd) ?d')) =
      totalHours (fst (get_stats (complete_userId cd) d)) + ?h"
    by (simp add: view credit_def)
  have count: "sessionsCount (fst (get_stats (complete_userId cd) ?d')) =
      sessionsCount (fst (get_stats (complete_userId cd) d)) + 1"
    by (simp add: view credit_def)
  have week: "weekly (fst (get_stats (complete_userId cd) ?d')) =
      (weekly (fst (get_stats (complete_userId cd) d)))
        [weekday now := weekly (fst (get_stats (complete_userId cd) d)) ! weekday now + ?h]"
    by (simp add: view weekly_credit)
  from run session total count week show ?thesis
    by blast
qed

theorem complete_session_again_witness:
  "complete_session (complete_a ''alice'') (monday + 11 * hour) db_a =
     (Inr (''Session completed'', 2), db_a1) \<and>
   ObjectId (sessionId (complete_a ''alice'')) = Inr (fst session_a) \<and>
   find_one (has_id (fst session_a)) (focus_sessions db_a1) =
     Some (fst session_a,
           (snd session_a)\<lparr>endTime := Some (monday + 11 * hour), completed := True\<rparr>) \<and>
   completed ((snd session_a)\<lparr>endTime := Some (monday + 11 * hour), completed := True\<rparr>) \<and>
   endTime ((snd session_a)\<lparr>endTime := Some (monday + 11 * hour), completed := True\<rparr>) =
     Some (monday + 11 * hour) \<and>
   length (weekly (fst (get_stats ''alice'' db_a1))) = 7 \<and>
   totalHours (fst (get_stats ''alice'' db_a1)) = 7 \<and>
   sessionsCount (fst (get_stats ''alice'' db_a1)) = 5 \<and>
   (\<exists>d'. complete_session (complete_a ''alice'') (monday + 12 * hour) db_a1 =
            (Inr (''Session completed'', 3), d') \<and>
         find_one (has_id (fst session_a)) (focus_sessions d') =
           Some (fst session_a,
                 (snd session_a)\<lparr>endTime := Some (monday + 12 * hour), completed := True\<rparr>) \<and>
         totalHours (fst (get_stats ''alice'' d')) = 10 \<and>
         sessionsCount (fst (get_stats ''alice'' d')) = 6 \<and>
         weekly (fst (get_stats ''alice'' d')) = [6, 0, 0, 0, 0, 1, 3])"
proof -
  have oid: "ObjectId (sessionId (complete_a ''alice'')) = Inr (fst session_a)"
    by (simp add: complete_a_def ObjectId_a)
  have is_completed:
    "completed ((snd session_a)\<lparr>endTime := Some (monday + 11 * hour), completed := True\<rparr>)"
    by simp
  have ended:
    "endTime ((snd session_a)\<lparr>endTime := Some (monday + 11 * hour), completed := True\<rparr>) =
       Some (monday + 11 * hour)"
    by simp
  have seven: "length (weekly (fst (get_stats (complete_userId (complete_a ''alice'')) db_a1))) = 7"
    by (simp add: complete_a_def alice_stats_a1 weekly_def)
  from complete_session_again [OF oid find_session_a1 is_completed ended seven,
      of "monday + 12 * hour"]
    complete_alice oid find_session_a1 seven
  show ?thesis
    by (simp add: complete_a_def alice_stats_a1 weekly_def hours_a1 weekday_a1)
qed

text \<open>
  C8, as the code has it: for the identifier of a stored schedule with an \<open>enabled\<close> flag
  \<open>b\<close>, \<open>toggle_schedule\<close> answers \<open>\<not> b\<close> and stores it, and a second call answers
  \<open>b\<close> and leaves the store exactly as it was before the first. For a well-formed
  identifier of no stored schedule it fails with the 404 \<^verbatim>\<open>Schedule not found\<close>, and
  for a string that is not a well-formed object identifier it fails with the uncaught
  \<^verbatim>\<open>InvalidId\<close>; the store is unchanged in both cases.
\<close>

theorem toggle_schedule_twice:
  "(ObjectId schedule_id = Inr i \<longrightarrow>
    find_one (has_id i) (schedules d) = Some (j, schedule) \<longrightarrow>
    enabled schedule = Some b \<longrightarrow>
    (\<exists>d1. toggle_schedule schedule_id d = (Inr (\<not> b), d1) \<and>
          find_one (has_id i) (schedules d1) = Some (j, schedule\<lparr>enabled := Some (\<not> b)\<rparr>) \<and>
          toggle_schedule schedule_id d1 = (Inr b, d))) \<and>
   (ObjectId schedule_id = Inr i \<longrightarrow>
    find_one (has_id i) (schedules d) = None \<longrightarrow>
    toggle_schedule schedule_id d = (Inl (HTTPException 404 ''Schedule not found''), d)) \<and>
   (ObjectId schedule_id = Inl e \<longrightarrow>
    toggle_schedule schedule_id d = (Inl InvalidId, d))"
proof (intro conjI impI)
  assume oid: "ObjectId schedule_id = Inr i"
    and found: "find_one (has_id i) (schedules d) = Some (j, schedule)"
    and flag: "enabled schedule = Some b"
  let ?off = "\<lambda>(j, s). (j, s\<lparr>enabled := Some (\<not> b)\<rparr>)"
  let ?on = "\<lambda>(j, s). (j, s\<lparr>enabled := Some b\<rparr>)"
  let ?d1 = "d\<lparr>schedules := update_one (has_id i) ?off (schedules d)\<rparr>"
  have first: "toggle_schedule schedule_id d = (Inr (\<not> b), ?d1)"
    by (rule toggle_schedule_found [OF oid found flag])
  have found1: "find_one (has_id i) (schedules ?d1) =
      Some (j, schedule\<lparr>enabled := Some (\<not> b)\<rparr>)"
    using found by (simp add: find_one_update_one_same)
  have "toggle_schedule schedule_id ?d1 =
      (Inr (\<not> \<not> b),
       ?d1\<lparr>schedules :=
          update_one (has_id i) (\<lambda>(j, s). (j, s\<lparr>enabled := Some (\<not> \<not> b)\<rparr>)) (schedules ?d1)\<rparr>)"
    by (rule toggle_schedule_found [OF oid found1]) simp
  moreover have "update_one (has_id i) ?on (update_one (has_id i) ?off (schedules d)) = schedules d"
  proof -
    have "update_one (has_id i) ?on (update_one (has_id i) ?off (schedules d)) =
        update_one (has_id i) (?on \<circ> ?off) (schedules d)"
      by (rule update_one_twice) simp
    also have "\<dots> = schedules d"
      using found flag by (intro update_one_fixed [where x = "(j, schedule)"]) simp_all
    finally show ?thesis .
  qed
  ultimately have second: "toggle_schedule schedule_id ?d1 = (Inr b, d)"
    by simp
  from first found1 second
  show "\<exists>d1. toggle_schedule schedule_id d = (Inr (\<not> b), d1) \<and>
          find_one (has_id i) (schedules d1) = Some (j, schedule\<lparr>enabled := Some (\<not> b)\<rparr>) \<and>
          toggle_schedule schedule_id d1 = (Inr b, d)"
    by blast
next
  assume "ObjectId schedule_id = Inr i" "find_one (has_id i) (schedules d) = None"
  then show "toggle_schedule schedule_id d = (Inl (HTTPException 404 ''Schedule not found''), d)"
    by (rule toggle_schedule_not_found)
next
  assume "ObjectId schedule_id = Inl e"
  then show "toggle_schedule schedule_id d = (Inl InvalidId, d)"
    using ObjectId_Inl [of schedule_id e] by (simp add: toggle_schedule_invalid)
qed

text \<open>
  The string \<^verbatim>\<open>abc\<close> is the identifier of no schedule of \<open>db_t\<close>; the call fails with
  \<^verbatim>\<open>InvalidId\<close>, which is not the 404 of a schedule that was not found.
\<close>

theorem toggle_schedule_malformed_counterexample:
  "map (\<lambda>(i, s). str i) (schedules db_t) =
     [''660b1c2d3e4f60718293a4b5'', ''660b1c2d3e4f60718293a4b6''] \<and>
   toggle_schedule ''abc'' db_t = (Inl InvalidId, db_t) \<and>
   InvalidId \<noteq> HTTPException 404 ''Schedule not found''"
  by (simp add: db_t_def case_prod_unfold str_morning str_evening toggle_schedule_def ObjectId_def)

theorem toggle_schedule_twice_witness:
  "ObjectId ''660b1c2d3e4f60718293a4b5'' = Inr (fst morning) \<and>
   find_one (has_id (fst morning)) (schedules db_t) = Some (fst morning, snd morning) \<and>
   enabled (snd morning) = Some True \<and>
   (\<exists>d1. toggle_schedule ''660b1c2d3e4f60718293a4b5'' db_t = (Inr False, d1) \<and>
         find_one (has_id (fst morning)) (schedules d1) =
           Some (fst morning, (snd morning)\<lparr>enabled := Some False\<rparr>) \<and>
         toggle_schedule ''660b1c2d3e4f60718293a4b5'' d1 = (Inr True, db_t)) \<and>
   ObjectId ''660b1c2d3e4f60718293a4b7'' =
     Inr [102, 11, 28, 45, 62, 79, 96, 113, 130, 147, 164, 183] \<and>
   find_one (has_id [102, 11, 28, 45, 62, 79, 96, 113, 130, 147, 164, 183]) (schedules db_t) =
     None \<and>
   toggle_schedule ''660b1c2d3e4f60718293a4b7'' db_t =
     (Inl (HTTPException 404 ''Schedule not found''), db_t) \<and>
   ObjectId ''morning'' = Inl InvalidId \<and>
   toggle_schedule ''morning'' db_t = (Inl InvalidId, db_t)"
proof -
  have found: "find_one (has_id (fst morning)) (schedules db_t) = Some (fst morning, snd morning)"
    by (simp add: db_t_def has_id_def)
  have flag: "enabled (snd morning) = Some True"
    by (simp add: morning_def)
  have absent:
    "find_one (has_id [102, 11, 28, 45, 62, 79, 96, 113, 130, 147, 164, 183]) (schedules db_t) =
       None"
    by (simp add: db_t_def has_id_def morning_def evening_def)
  have malformed: "ObjectId ''morning'' = Inl InvalidId"
    by (simp add: ObjectId_def)
  from toggle_schedule_twice [where schedule_id = "''660b1c2d3e4f60718293a4b5''"
      and i = "fst morning" and d = db_t and j = "fst morning" and schedule = "snd morning"
      and b = True]
    toggle_schedule_twice [where schedule_id = "''660b1c2d3e4f60718293a4b7''"
      and i = "[102, 11, 28, 45, 62, 79, 96, 113, 130, 147, 164, 183]" and d = db_t]
    toggle_schedule_twice [where schedule_id = "''morning''" and d = db_t and e = InvalidId]
    ObjectId_morning found flag ObjectId_unknown absent malformed
  show ?thesis
    by simp
qed

text \<open>
  C9: \<open>get_schedules\<close> reads the cursor with \<^verbatim>\<open>to_list(100)\<close>. In a store that holds 101
  schedules of one user, all 101 match the query, 100 are returned, and the schedule
  stored last is not among them.
\<close>

theorem get_schedules_drops_101st:
  "length (find_all (\<lambda>(i, s). schedule_userId s = ''default_user'') (schedules db_101)) = 101 \<and>
   length (fst (get_schedules ''default_user'' db_101)) = 100 \<and>
   numbered_schedule 100 \<in> set (schedules db_101) \<and>
   schedule_userId (snd (numbered_schedule 100)) = ''default_user'' \<and>
   snd (numbered_schedule 100) \<notin> snd ` set (fst (get_schedules ''default_user'' db_101))"
proof -
  have stored: "schedules db_101 = map numbered_schedule [0..<101]"
    by (simp add: db_101_def)
  have returned: "fst (get_schedules ''default_user'' db_101) =
      map (\<lambda>(i, s). (str i, s)) (map numbered_schedule [0..<100])"
    by (simp add: get_schedules_take stored filter_numbered take_map)
  have "snd (numbered_schedule 100) \<notin> snd ` set (map (\<lambda>(i, s). (str i, s)) (map numbered_schedule [0..<100]))"
    by (auto simp: numbered_schedule_def)
  then show ?thesis
    by (simp add: returned stored find_all_def filter_numbered)
       (simp add: numbered_schedule_def)
qed

end
